theory Spec2Isabelle
  imports Main
begin

section \<open>Reservation types (types/models.ts)\<close>

text \<open>
  An ObjectId is a 96-bit value; a Date is its time value, the milliseconds since the
  epoch. Amounts and guest counts are JavaScript numbers; no property below depends on
  a fractional amount, so they are integers here.
\<close>

type_synonym ObjectId = nat
type_synonym Date = int

datatype ReservationStatus = PENDING | CONFIRMED | CHECKED_IN | CHECKED_OUT | CANCELLED | NO_SHOW

fun ReservationStatus_value :: "ReservationStatus \<Rightarrow> string" where
  "ReservationStatus_value PENDING = ''pending''"
| "ReservationStatus_value CONFIRMED = ''confirmed''"
| "ReservationStatus_value CHECKED_IN = ''checked_in''"
| "ReservationStatus_value CHECKED_OUT = ''checked_out''"
| "ReservationStatus_value CANCELLED = ''cancelled''"
| "ReservationStatus_value NO_SHOW = ''no_show''"

datatype ReservationSource = ONLINE | PHONE | WALK_IN | TRAVEL_AGENT

fun ReservationSource_value :: "ReservationSource \<Rightarrow> string" where
  "ReservationSource_value ONLINE = ''online''"
| "ReservationSource_value PHONE = ''phone''"
| "ReservationSource_value WALK_IN = ''walk_in''"
| "ReservationSource_value TRAVEL_AGENT = ''travel_agent''"

text \<open>\<^verbatim>\<open>Object.values(ReservationStatus)\<close> and \<^verbatim>\<open>Object.values(ReservationSource)\<close>.\<close>

definition ReservationStatus_values :: "string list" where
  "ReservationStatus_values =
     map ReservationStatus_value [PENDING, CONFIRMED, CHECKED_IN, CHECKED_OUT, CANCELLED, NO_SHOW]"

definition ReservationSource_values :: "string list" where
  "ReservationSource_values = map ReservationSource_value [ONLINE, PHONE, WALK_IN, TRAVEL_AGENT]"

section \<open>The stored document (models/Reservation.model.ts)\<close>

text \<open>
  A stored reservation has exactly the paths of \<^verbatim>\<open>reservationSchema\<close>: the declared
  ones, \<^verbatim>\<open>_id\<close> (here \<open>oid\<close>), and \<^verbatim>\<open>createdAt\<close>/\<^verbatim>\<open>updatedAt\<close> from
  \<^verbatim>\<open>timestamps: true\<close>. The status is stored as the string the enum gives.
  \<open>source\<close> is optional in the record because a document is built before the
  \<^verbatim>\<open>required\<close> validator looks at it.
\<close>

record Reservation =
  oid :: ObjectId
  guestId :: ObjectId
  roomId :: ObjectId
  checkInDate :: Date
  checkOutDate :: Date
  numberOfGuests :: int
  status :: string
  totalAmount :: int
  depositAmount :: "int option"
  specialRequests :: "string option"
  source :: "string option"
  assignedRoomId :: "ObjectId option"
  createdAt :: Date
  updatedAt :: Date

definition schemaPaths :: "string list" where
  "schemaPaths =
     [''guestId'', ''roomId'', ''checkInDate'', ''checkOutDate'', ''numberOfGuests'',
      ''status'', ''totalAmount'', ''depositAmount'', ''specialRequests'', ''source'',
      ''assignedRoomId'', ''createdAt'', ''updatedAt'']"

text \<open>
  A value of a request body or an update object, tagged with what JavaScript and Mongoose
  read it as: \<open>VDate t\<close> is any value that denotes the date \<open>t\<close> (a Date or a date
  string), \<open>VObjectId i\<close> any value that denotes the id \<open>i\<close>; a \<open>VString\<close>, \<open>VNumber\<close>
  or \<open>VBool\<close> denotes neither a date nor an id. \<open>VUndefined\<close> is an absent (or null)
  key. A value whose tag is not the kind of the path it is sent to stands for one the
  path cannot cast.
\<close>

datatype val = VString string | VDate Date | VNumber int | VBool bool | VObjectId ObjectId
  | VUndefined

text \<open>
  What a call into Mongoose throws: a validation error with the failing paths, a cast
  error with the path a value could not be cast to, or the server's duplicate-key error
  (E11000) of the unique index on \<^verbatim>\<open>_id\<close>.
\<close>

datatype MongooseError = ValidationError "(string \<times> string) list" | CastError string
  | DuplicateKeyError

text \<open>\<^verbatim>\<open>trim: true\<close> on \<^verbatim>\<open>specialRequests\<close> (the ASCII white space).\<close>

definition isSpace :: "char \<Rightarrow> bool" where
  "isSpace c = (c \<in> set [CHR '' '', CHR 0x09, CHR 0x0A, CHR 0x0B, CHR 0x0C, CHR 0x0D])"

definition trim :: "string \<Rightarrow> string" where
  "trim s = rev (dropWhile isSpace (rev (dropWhile isSpace s)))"

subsection \<open>Reading a request body\<close>

text \<open>
  A body (or an update object) is the list of its keys with their values; the keys are
  distinct. Reading a key gives undefined when it is absent. \<open>newDate\<close> is
  \<^verbatim>\<open>new Date(v)\<close>, with \<open>None\<close> for the invalid date. A path reads a key as missing,
  as a value it cannot cast, or as the value cast.
\<close>

definition field :: "(string \<times> val) list \<Rightarrow> string \<Rightarrow> val" where
  "field obj k = (case map_of obj k of None \<Rightarrow> VUndefined | Some v \<Rightarrow> v)"

fun newDate :: "val \<Rightarrow> Date option" where
  "newDate (VDate t) = Some t"
| "newDate v = None"

fun castObjectId :: "val \<Rightarrow> ObjectId option" where
  "castObjectId (VObjectId i) = Some i"
| "castObjectId v = None"

fun castNumber :: "val \<Rightarrow> int option" where
  "castNumber (VNumber n) = Some n"
| "castNumber v = None"

fun castString :: "val \<Rightarrow> string option" where
  "castString (VString s) = Some s"
| "castString v = None"

datatype 'a param = Missing | Malformed | Given 'a

definition readPath :: "(val \<Rightarrow> 'a option) \<Rightarrow> (string \<times> val) list \<Rightarrow> string \<Rightarrow> 'a param" where
  "readPath cast obj k =
     (if field obj k = VUndefined then Missing
      else case cast (field obj k) of None \<Rightarrow> Malformed | Some x \<Rightarrow> Given x)"

subsection \<open>Validators of the schema on a new document (save)\<close>

text \<open>
  \<^verbatim>\<open>new Reservation(body)\<close> casts each key that is a path of the schema; a value that
  cannot be cast is reported by the validation of \<^verbatim>\<open>save()\<close>, together with the
  failures of the validators. Each failure is the path and the message the schema gives;
  for the built-in \<^verbatim>\<open>required\<close> and \<^verbatim>\<open>enum\<close> validators and for a failed cast,
  which the schema gives no message, the kind of the failure. In a document validator
  \<^verbatim>\<open>this\<close> is the document: \<^verbatim>\<open>this.checkInDate\<close> and \<^verbatim>\<open>this.totalAmount\<close> are
  undefined when the body gave none, and a comparison with undefined is false.
\<close>

fun requiredFailure :: "string \<Rightarrow> 'a param \<Rightarrow> (string \<times> string) list" where
  "requiredFailure k Missing = [(k, ''required'')]"
| "requiredFailure k Malformed = [(k, ''cast'')]"
| "requiredFailure k (Given x) = []"

fun castFailure :: "string \<Rightarrow> 'a param \<Rightarrow> (string \<times> string) list" where
  "castFailure k Malformed = [(k, ''cast'')]"
| "castFailure k p = []"

definition documentErrors :: "Date \<Rightarrow> (string \<times> val) list \<Rightarrow> (string \<times> string) list" where
  "documentErrors now body =
     requiredFailure ''guestId'' (readPath castObjectId body ''guestId'') @
     requiredFailure ''roomId'' (readPath castObjectId body ''roomId'') @
     (case readPath newDate body ''checkInDate'' of
        Given v \<Rightarrow>
          if v > now then [] else [(''checkInDate'', ''Check-in date must be in the future'')]
      | p \<Rightarrow> requiredFailure ''checkInDate'' p) @
     (case readPath newDate body ''checkOutDate'' of
        Given v \<Rightarrow>
          (case readPath newDate body ''checkInDate'' of
             Given c \<Rightarrow>
               if v > c then []
               else [(''checkOutDate'', ''Check-out date must be after check-in date'')]
           | p \<Rightarrow> [(''checkOutDate'', ''Check-out date must be after check-in date'')])
      | p \<Rightarrow> requiredFailure ''checkOutDate'' p) @
     (case readPath castNumber body ''numberOfGuests'' of
        Given n \<Rightarrow>
          if n < 1 then [(''numberOfGuests'', ''Number of guests must be at least 1'')]
          else if n > 10 then [(''numberOfGuests'', ''Number of guests cannot exceed 10'')]
          else []
      | p \<Rightarrow> requiredFailure ''numberOfGuests'' p) @
     (case readPath castString body ''status'' of
        Given s \<Rightarrow>
          if s = [] then [(''status'', ''required'')]
          else if s \<in> set ReservationStatus_values then []
          else [(''status'', ''enum'')]
      | p \<Rightarrow> castFailure ''status'' p) @
     (case readPath castNumber body ''totalAmount'' of
        Given n \<Rightarrow>
          if n < 0 then [(''totalAmount'', ''Total amount cannot be negative'')] else []
      | p \<Rightarrow> requiredFailure ''totalAmount'' p) @
     (case readPath castNumber body ''depositAmount'' of
        Given v \<Rightarrow>
          if v < 0 then [(''depositAmount'', ''Deposit amount cannot be negative'')]
          else if v = 0 then []
          else
            (case readPath castNumber body ''totalAmount'' of
               Given t \<Rightarrow>
                 if v \<le> t then []
                 else [(''depositAmount'', ''Deposit amount cannot exceed total amount'')]
             | p \<Rightarrow> [(''depositAmount'', ''Deposit amount cannot exceed total amount'')])
      | p \<Rightarrow> castFailure ''depositAmount'' p) @
     (case readPath castString body ''specialRequests'' of
        Given s \<Rightarrow>
          if length (trim s) > 1000
          then [(''specialRequests'', ''Special requests cannot exceed 1000 characters'')]
          else []
      | p \<Rightarrow> castFailure ''specialRequests'' p) @
     (case readPath castString body ''source'' of
        Given s \<Rightarrow>
          if s = [] then [(''source'', ''required'')]
          else if s \<in> set ReservationSource_values then []
          else [(''source'', ''enum'')]
      | p \<Rightarrow> requiredFailure ''source'' p) @
     castFailure ''assignedRoomId'' (readPath castObjectId body ''assignedRoomId'') @
     castFailure ''_id'' (readPath castObjectId body ''_id'') @
     castFailure ''createdAt'' (readPath newDate body ''createdAt'')"

text \<open>
  The document \<^verbatim>\<open>new Reservation(body)\<close> holds when every path could be read: the
  body's \<^verbatim>\<open>_id\<close> or else the generated one, the schema's default for a missing status,
  the trimmed special requests, and the timestamps \<^verbatim>\<open>timestamps: true\<close> sets on save
  (the body's \<^verbatim>\<open>createdAt\<close> or else \<open>now\<close>, for both). Keys that are no path of the
  schema are dropped.
\<close>

fun required :: "'a param \<Rightarrow> 'a option" where
  "required (Given x) = Some x"
| "required p = None"

fun optional :: "'a param \<Rightarrow> 'a option option" where
  "optional Missing = Some None"
| "optional (Given x) = Some (Some x)"
| "optional Malformed = None"

definition newReservation :: "Date \<Rightarrow> ObjectId \<Rightarrow> (string \<times> val) list \<Rightarrow> Reservation option" where
  "newReservation now generated body =
     Option.bind (optional (readPath castObjectId body ''_id'')) (\<lambda>given_id.
     Option.bind (required (readPath castObjectId body ''guestId'')) (\<lambda>guest.
     Option.bind (required (readPath castObjectId body ''roomId'')) (\<lambda>room.
     Option.bind (required (readPath newDate body ''checkInDate'')) (\<lambda>cin.
     Option.bind (required (readPath newDate body ''checkOutDate'')) (\<lambda>cout.
     Option.bind (required (readPath castNumber body ''numberOfGuests'')) (\<lambda>guests.
     Option.bind (optional (readPath castString body ''status'')) (\<lambda>st.
     Option.bind (required (readPath castNumber body ''totalAmount'')) (\<lambda>total.
     Option.bind (optional (readPath castNumber body ''depositAmount'')) (\<lambda>deposit.
     Option.bind (optional (readPath castString body ''specialRequests'')) (\<lambda>requests.
     Option.bind (required (readPath castString body ''source'')) (\<lambda>src.
     Option.bind (optional (readPath castObjectId body ''assignedRoomId'')) (\<lambda>assigned.
     Option.bind (optional (readPath newDate body ''createdAt'')) (\<lambda>created.
       Some \<lparr> oid = (case given_id of None \<Rightarrow> generated | Some i \<Rightarrow> i),
              guestId = guest,
              roomId = room,
              checkInDate = cin,
              checkOutDate = cout,
              numberOfGuests = guests,
              status = (case st of None \<Rightarrow> ReservationStatus_value PENDING | Some s \<Rightarrow> s),
              totalAmount = total,
              depositAmount = deposit,
              specialRequests = map_option trim requests,
              source = Some src,
              assignedRoomId = assigned,
              createdAt = (case created of None \<Rightarrow> now | Some t \<Rightarrow> t),
              updatedAt = (case created of None \<Rightarrow> now | Some t \<Rightarrow> t) \<rparr>)))))))))))))"

subsection \<open>The collection and its queries\<close>

text \<open>
  The collection is the list of its documents in insertion order. \<^verbatim>\<open>findOne(filter)\<close>
  is \<^const>\<open>List.find\<close> with the filter as a predicate.
\<close>

definition findById :: "ObjectId \<Rightarrow> Reservation list \<Rightarrow> Reservation option" where
  "findById i store = find (\<lambda>r. oid r = i) store"

text \<open>The id the driver generates for a new document: one no stored document has.\<close>

definition newObjectId :: "Reservation list \<Rightarrow> ObjectId" where
  "newObjectId store = Suc (foldr max (map oid store) 0)"

text \<open>
  \<^verbatim>\<open>new Reservation(body).save()\<close>: validation first; then the insert, which the
  server refuses when a stored document already has the \<^verbatim>\<open>_id\<close>.
\<close>

definition save :: "Date \<Rightarrow> (string \<times> val) list \<Rightarrow> Reservation list
    \<Rightarrow> MongooseError + (Reservation \<times> Reservation list)" where
  "save now body store =
     (case newReservation now (newObjectId store) body of
        None \<Rightarrow> Inl (ValidationError (documentErrors now body))
      | Some doc \<Rightarrow>
          if documentErrors now body \<noteq> [] then Inl (ValidationError (documentErrors now body))
          else if oid doc \<in> set (map oid store) then Inl DuplicateKeyError
          else Inr (doc, store @ [doc]))"

subsection \<open>findByIdAndUpdate with runValidators\<close>

text \<open>
  The schema leaves \<^verbatim>\<open>strict\<close> at its default, so an update keeps only the keys that
  are paths of the schema; an undefined value is no assignment.
\<close>

definition castUpdate :: "(string \<times> val) list \<Rightarrow> (string \<times> val) list" where
  "castUpdate upd = filter (\<lambda>kv. fst kv \<in> set schemaPaths \<and> snd kv \<noteq> VUndefined) upd"

text \<open>
  The assignment a key of the schema makes, or \<open>None\<close> when the value cannot be cast to
  the type of the path (Mongoose throws a CastError).
\<close>

fun castPath :: "string \<times> val \<Rightarrow> (Reservation \<Rightarrow> Reservation) option" where
  "castPath (k, VObjectId i) =
     (if k = ''guestId'' then Some (\<lambda>d. d\<lparr>guestId := i\<rparr>)
      else if k = ''roomId'' then Some (\<lambda>d. d\<lparr>roomId := i\<rparr>)
      else if k = ''assignedRoomId'' then Some (\<lambda>d. d\<lparr>assignedRoomId := Some i\<rparr>)
      else None)"
| "castPath (k, VDate t) =
     (if k = ''checkInDate'' then Some (\<lambda>d. d\<lparr>checkInDate := t\<rparr>)
      else if k = ''checkOutDate'' then Some (\<lambda>d. d\<lparr>checkOutDate := t\<rparr>)
      else if k = ''createdAt'' then Some (\<lambda>d. d\<lparr>createdAt := t\<rparr>)
      else if k = ''updatedAt'' then Some (\<lambda>d. d\<lparr>updatedAt := t\<rparr>)
      else None)"
| "castPath (k, VString s) =
     (if k = ''status'' then Some (\<lambda>d. d\<lparr>status := s\<rparr>)
      else if k = ''specialRequests'' then Some (\<lambda>d. d\<lparr>specialRequests := Some (trim s)\<rparr>)
      else if k = ''source'' then Some (\<lambda>d. d\<lparr>source := Some s\<rparr>)
      else None)"
| "castPath (k, VNumber n) =
     (if k = ''numberOfGuests'' then Some (\<lambda>d. d\<lparr>numberOfGuests := n\<rparr>)
      else if k = ''totalAmount'' then Some (\<lambda>d. d\<lparr>totalAmount := n\<rparr>)
      else if k = ''depositAmount'' then Some (\<lambda>d. d\<lparr>depositAmount := Some n\<rparr>)
      else None)"
| "castPath (k, VBool b) = None"
| "castPath (k, VUndefined) = None"

text \<open>
  The validators \<^verbatim>\<open>runValidators: true\<close> runs on the paths an update assigns. In an
  update validator \<^verbatim>\<open>this\<close> is the query, not a document: \<^verbatim>\<open>this.checkInDate\<close> and
  \<^verbatim>\<open>this.totalAmount\<close> are undefined there, and a comparison with undefined is false.
\<close>

fun updateValidator :: "Date \<Rightarrow> string \<times> val \<Rightarrow> (string \<times> string) list" where
  "updateValidator now (k, VDate t) =
     (if k = ''checkInDate'' then
        (if t > now then [] else [(''checkInDate'', ''Check-in date must be in the future'')])
      else if k = ''checkOutDate'' then
        [(''checkOutDate'', ''Check-out date must be after check-in date'')]
      else [])"
| "updateValidator now (k, VString s) =
     (if k = ''status'' then
        (if s = [] then [(''status'', ''required'')]
         else if s \<in> set ReservationStatus_values then []
         else [(''status'', ''enum'')])
      else if k = ''source'' then
        (if s = [] then [(''source'', ''required'')]
         else if s \<in> set ReservationSource_values then []
         else [(''source'', ''enum'')])
      else if k = ''specialRequests'' then
        (if length (trim s) > 1000
         then [(''specialRequests'', ''Special requests cannot exceed 1000 characters'')]
         else [])
      else [])"
| "updateValidator now (k, VNumber n) =
     (if k = ''numberOfGuests'' then
        (if n < 1 then [(''numberOfGuests'', ''Number of guests must be at least 1'')]
         else if n > 10 then [(''numberOfGuests'', ''Number of guests cannot exceed 10'')]
         else [])
      else if k = ''totalAmount'' then
        (if n < 0 then [(''totalAmount'', ''Total amount cannot be negative'')] else [])
      else if k = ''depositAmount'' then
        (if n < 0 then [(''depositAmount'', ''Deposit amount cannot be negative'')]
         else if n = 0 then []
         else [(''depositAmount'', ''Deposit amount cannot exceed total amount'')])
      else [])"
| "updateValidator now (k, v) = []"

text \<open>The first document with the id is replaced, as \<^verbatim>\<open>findOneAndUpdate\<close> does.\<close>

fun replaceById :: "ObjectId \<Rightarrow> Reservation \<Rightarrow> Reservation list \<Rightarrow> Reservation list" where
  "replaceById i doc [] = []"
| "replaceById i doc (r # rs) = (if oid r = i then doc # rs else r # replaceById i doc rs)"

definition applyAll :: "('a \<Rightarrow> 'a) list \<Rightarrow> 'a \<Rightarrow> 'a" where
  "applyAll fs x = fold (\<lambda>f y. f y) fs x"

text \<open>
  With \<^verbatim>\<open>new: true\<close> the result is the updated document, or null (\<open>None\<close>) when no
  document has the id. Casting and validation happen before the collection is touched.
\<close>

definition findByIdAndUpdate :: "Date \<Rightarrow> ObjectId \<Rightarrow> (string \<times> val) list \<Rightarrow> Reservation list
    \<Rightarrow> MongooseError + (Reservation option \<times> Reservation list)" where
  "findByIdAndUpdate now i upd store =
     (case find (\<lambda>kv. castPath kv = None) (castUpdate upd) of
        Some kv \<Rightarrow> Inl (CastError (fst kv))
      | None \<Rightarrow>
          if concat (map (updateValidator now) (castUpdate upd)) \<noteq> []
          then Inl (ValidationError (concat (map (updateValidator now) (castUpdate upd))))
          else
            (case findById i store of
               None \<Rightarrow> Inr (None, store)
             | Some doc \<Rightarrow>
                 Inr (Some (applyAll (List.map_filter castPath (castUpdate upd)) doc),
                      replaceById i
                        (applyAll (List.map_filter castPath (castUpdate upd)) doc) store)))"

section \<open>ReservationController (controllers/reservation.controller.ts)\<close>

text \<open>
  What a handler sends: \<open>Success data message code\<close> is \<^verbatim>\<open>ResponseUtil.success\<close>,
  \<open>Failure message code\<close> is \<^verbatim>\<open>ResponseUtil.error\<close> called by the handler itself, and
  \<open>Caught e\<close> is the \<^verbatim>\<open>catch\<close> block, which sends the error's message with code 500.
  A handler takes the time \<open>now\<close> that \<^verbatim>\<open>new Date()\<close> reads during the request and
  the collection, and returns the response with the collection after it.
\<close>

datatype 'a Response = Success 'a string nat | Failure string nat | Caught MongooseError

text \<open>
  The filter of the three availability queries:
  \<^verbatim>\<open>{ roomId, status: { $in: ['confirmed', 'checked-in'] },
     $or: [{ checkInDate: { $lte: checkOutDate }, checkOutDate: { $gte: checkInDate } }] }\<close>
\<close>

definition availabilityFilter :: "ObjectId \<Rightarrow> Date \<Rightarrow> Date \<Rightarrow> Reservation \<Rightarrow> bool" where
  "availabilityFilter room requestedCheckIn requestedCheckOut r =
     (roomId r = room \<and> status r \<in> set [''confirmed'', ''checked-in'']
      \<and> checkInDate r \<le> requestedCheckOut \<and> checkOutDate r \<ge> requestedCheckIn)"

text \<open>
  createReservation takes \<^verbatim>\<open>req.body\<close> as it is. The availability query casts the
  body's room id and \<^verbatim>\<open>new Date\<close> of its dates: a room id that is no ObjectId or an
  invalid date makes \<^verbatim>\<open>findOne\<close> throw a CastError, which the catch block answers. An
  undefined room id is sent as null and matches no stored reservation.
\<close>

definition createReservation :: "Date \<Rightarrow> (string \<times> val) list \<Rightarrow> Reservation list
    \<Rightarrow> Reservation Response \<times> Reservation list" where
  "createReservation now reservationData store =
     (case readPath castObjectId reservationData ''roomId'' of
        Malformed \<Rightarrow> (Caught (CastError ''roomId''), store)
      | room \<Rightarrow>
          (case newDate (field reservationData ''checkOutDate'') of
             None \<Rightarrow> (Caught (CastError ''checkInDate''), store)
           | Some cout \<Rightarrow>
               (case newDate (field reservationData ''checkInDate'') of
                  None \<Rightarrow> (Caught (CastError ''checkOutDate''), store)
                | Some cin \<Rightarrow>
                    (case (case room of
                             Given i \<Rightarrow> find (availabilityFilter i cin cout) store
                           | p \<Rightarrow> None) of
                       Some existingReservation \<Rightarrow>
                         (Failure ''Room is not available for the selected dates'' 409, store)
                     | None \<Rightarrow>
                         (case save now reservationData store of
                            Inl e \<Rightarrow> (Caught e, store)
                          | Inr (savedReservation, store') \<Rightarrow>
                              (Success savedReservation ''Reservation created successfully'' 201,
                               store'))))))"

text \<open>
  The query parameters of checkAvailability: missing or empty, present but not of the
  form the handler or the query needs, or the value they denote.
\<close>

record Availability =
  available :: bool
  conflictingReservation :: "ObjectId option"

text \<open>
  The response also echoes the three query strings, which are left out. A date string that
  \<^verbatim>\<open>new Date\<close> cannot read makes the query throw a CastError on the path it is compared
  with.
\<close>

fun checkAvailability :: "ObjectId param \<Rightarrow> Date param \<Rightarrow> Date param \<Rightarrow> Reservation list
    \<Rightarrow> Availability Response" where
  "checkAvailability Missing cin cout store =
     Failure ''Room ID, check-in date, and check-out date are required'' 400"
| "checkAvailability room Missing cout store =
     Failure ''Room ID, check-in date, and check-out date are required'' 400"
| "checkAvailability room cin Missing store =
     Failure ''Room ID, check-in date, and check-out date are required'' 400"
| "checkAvailability Malformed cin cout store =
     Failure ''Invalid room ID format'' 400"
| "checkAvailability (Given room) cin Malformed store = Caught (CastError ''checkInDate'')"
| "checkAvailability (Given room) Malformed (Given cout) store = Caught (CastError ''checkOutDate'')"
| "checkAvailability (Given room) (Given cin) (Given cout) store =
     (case find (availabilityFilter room cin cout) store of
        None \<Rightarrow>
          Success \<lparr> available = True, conflictingReservation = None \<rparr>
            ''Availability checked successfully'' 200
      | Some conflicting \<Rightarrow>
          Success \<lparr> available = False, conflictingReservation = Some (oid conflicting) \<rparr>
            ''Availability checked successfully'' 200)"

text \<open>
  The \<^verbatim>\<open>:id\<close> of a route is \<open>None\<close> when \<^verbatim>\<open>Types.ObjectId.isValid(id)\<close> is false and
  the ObjectId it denotes otherwise.
\<close>

definition confirmReservation :: "Date \<Rightarrow> ObjectId option \<Rightarrow> Reservation list
    \<Rightarrow> Reservation option Response \<times> Reservation list" where
  "confirmReservation now id' store =
     (case id' of
        None \<Rightarrow> (Failure ''Invalid reservation ID format'' 400, store)
      | Some i \<Rightarrow>
          (case findById i store of
             None \<Rightarrow> (Failure ''Reservation not found'' 404, store)
           | Some reservation \<Rightarrow>
               if status reservation \<noteq> ReservationStatus_value PENDING
               then (Failure ''Only pending reservations can be confirmed'' 400, store)
               else
                 (case findByIdAndUpdate now i
                         [(''status'', VString ''confirmed''), (''confirmedAt'', VDate now),
                          (''updatedAt'', VDate now)] store of
                    Inl e \<Rightarrow> (Caught e, store)
                  | Inr (updatedReservation, store') \<Rightarrow>
                      (Success updatedReservation ''Reservation confirmed successfully'' 200,
                       store'))))"

text \<open>An optional string of the body as a value: undefined when the key is absent.\<close>

fun optString :: "string option \<Rightarrow> val" where
  "optString None = VUndefined"
| "optString (Some s) = VString s"

definition cancelReservation :: "Date \<Rightarrow> ObjectId option \<Rightarrow> string option \<Rightarrow> Reservation list
    \<Rightarrow> Reservation option Response \<times> Reservation list" where
  "cancelReservation now id' reason store =
     (case id' of
        None \<Rightarrow> (Failure ''Invalid reservation ID format'' 400, store)
      | Some i \<Rightarrow>
          (case findById i store of
             None \<Rightarrow> (Failure ''Reservation not found'' 404, store)
           | Some reservation \<Rightarrow>
               if status reservation \<in> set [''cancelled'', ''checked-out'']
               then (Failure ''Reservation is already cancelled or completed'' 400, store)
               else
                 (case findByIdAndUpdate now i
                         [(''status'', VString ''cancelled''),
                          (''cancellationReason'', optString reason),
                          (''cancelledAt'', VDate now), (''updatedAt'', VDate now)] store of
                    Inl e \<Rightarrow> (Caught e, store)
                  | Inr (updatedReservation, store') \<Rightarrow>
                      (Success updatedReservation ''Reservation cancelled successfully'' 200,
                       store'))))"

definition validStatuses :: "string list" where
  "validStatuses =
     [''pending'', ''confirmed'', ''checked-in'', ''checked-out'', ''cancelled'', ''no-show'']"

text \<open>\<^verbatim>\<open>validStatuses.includes(status)\<close> compares with \<^verbatim>\<open>===\<close>: only a string can pass.\<close>

fun includes_str :: "string list \<Rightarrow> val \<Rightarrow> bool" where
  "includes_str xs (VString s) = (s \<in> set xs)"
| "includes_str xs v = False"

definition updateReservationStatus :: "Date \<Rightarrow> ObjectId option \<Rightarrow> val \<Rightarrow> Reservation list
    \<Rightarrow> Reservation Response \<times> Reservation list" where
  "updateReservationStatus now id' status' store =
     (case id' of
        None \<Rightarrow> (Failure ''Invalid reservation ID format'' 400, store)
      | Some i \<Rightarrow>
          if \<not> includes_str validStatuses status' then (Failure ''Invalid status value'' 400, store)
          else
            (case findByIdAndUpdate now i
                    ([(''status'', status'), (''updatedAt'', VDate now)]
                     @ (if status' = VString ''confirmed'' then [(''confirmedAt'', VDate now)] else [])
                     @ (if status' = VString ''checked-in'' then [(''checkedInAt'', VDate now)] else [])
                     @ (if status' = VString ''checked-out'' then [(''checkedOutAt'', VDate now)] else [])
                     @ (if status' = VString ''cancelled'' then [(''cancelledAt'', VDate now)] else []))
                    store of
               Inl e \<Rightarrow> (Caught e, store)
             | Inr (None, store') \<Rightarrow> (Failure ''Reservation not found'' 404, store')
             | Inr (Some updatedReservation, store') \<Rightarrow>
                 (Success updatedReservation ''Reservation status updated successfully'' 200,
                  store')))"

definition deleteReservation :: "Date \<Rightarrow> ObjectId option \<Rightarrow> string option \<Rightarrow> string option
    \<Rightarrow> Reservation list \<Rightarrow> Reservation option Response \<times> Reservation list" where
  "deleteReservation now id' deletionReason notes store =
     (case id' of
        None \<Rightarrow> (Failure ''Invalid reservation ID format'' 400, store)
      | Some i \<Rightarrow>
          (case findById i store of
             None \<Rightarrow> (Failure ''Reservation not found'' 404, store)
           | Some reservation \<Rightarrow>
               if status reservation \<notin> set [''cancelled'', ''pending'']
               then (Failure ''Only cancelled or pending reservations can be deleted'' 400, store)
               else
                 (case findByIdAndUpdate now i
                         [(''isActive'', VBool False),
                          (''deletionReason'', optString deletionReason),
                          (''notes'', optString notes),
                          (''deletedAt'', VDate now), (''updatedAt'', VDate now)] store of
                    Inl e \<Rightarrow> (Caught e, store)
                  | Inr (updatedReservation, store') \<Rightarrow>
                      (Success updatedReservation ''Reservation deleted successfully'' 200,
                       store'))))"

subsection \<open>updateReservation\<close>

text \<open>
  JavaScript's truthiness and \<^verbatim>\<open>a || b\<close>. An invalid date or a room id that is no
  ObjectId makes the conflict query throw a CastError.
\<close>

fun truthy :: "val \<Rightarrow> bool" where
  "truthy (VString s) = (s \<noteq> [])"
| "truthy (VDate t) = True"
| "truthy (VNumber n) = (n \<noteq> 0)"
| "truthy (VBool b) = b"
| "truthy (VObjectId i) = True"
| "truthy VUndefined = False"

definition orElse :: "val \<Rightarrow> val \<Rightarrow> val" where
  "orElse a b = (if truthy a then a else b)"

text \<open>
  The final \<^verbatim>\<open>findByIdAndUpdate(id, { ...updateData, updatedAt: new Date() }, ...)\<close>:
  the spread keeps the body's keys and the literal's \<^verbatim>\<open>updatedAt\<close> replaces one of its
  own.
\<close>

definition persistUpdate :: "Date \<Rightarrow> ObjectId \<Rightarrow> (string \<times> val) list \<Rightarrow> Reservation list
    \<Rightarrow> Reservation Response \<times> Reservation list" where
  "persistUpdate now i updateData store =
     (case findByIdAndUpdate now i
             (filter (\<lambda>kv. fst kv \<noteq> ''updatedAt'') updateData @ [(''updatedAt'', VDate now)])
             store of
        Inl e \<Rightarrow> (Caught e, store)
      | Inr (None, store') \<Rightarrow> (Failure ''Reservation not found'' 404, store')
      | Inr (Some updatedReservation, store') \<Rightarrow>
          (Success updatedReservation ''Reservation updated successfully'' 200, store'))"

definition updateReservation :: "Date \<Rightarrow> ObjectId option \<Rightarrow> (string \<times> val) list
    \<Rightarrow> Reservation list \<Rightarrow> Reservation Response \<times> Reservation list" where
  "updateReservation now id' updateData store =
     (case id' of
        None \<Rightarrow> (Failure ''Invalid reservation ID format'' 400, store)
      | Some i \<Rightarrow>
          if truthy (field updateData ''roomId'') \<or> truthy (field updateData ''checkInDate'')
             \<or> truthy (field updateData ''checkOutDate'')
          then
            (case findById i store of
               None \<Rightarrow> (Failure ''Reservation not found'' 404, store)
             | Some currentReservation \<Rightarrow>
                 (case castObjectId (orElse (field updateData ''roomId'')
                                        (VObjectId (roomId currentReservation))) of
                    None \<Rightarrow> (Caught (CastError ''roomId''), store)
                  | Some room \<Rightarrow>
                      (case newDate (orElse (field updateData ''checkOutDate'')
                                        (VDate (checkOutDate currentReservation))) of
                         None \<Rightarrow> (Caught (CastError ''checkInDate''), store)
                       | Some cout \<Rightarrow>
                           (case newDate (orElse (field updateData ''checkInDate'')
                                             (VDate (checkInDate currentReservation))) of
                              None \<Rightarrow> (Caught (CastError ''checkOutDate''), store)
                            | Some cin \<Rightarrow>
                                (case find (\<lambda>r. oid r \<noteq> i \<and> availabilityFilter room cin cout r)
                                        store of
                                   Some conflicting \<Rightarrow>
                                     (Failure ''Room is not available for the selected dates'' 409,
                                      store)
                                 | None \<Rightarrow> persistUpdate now i updateData store)))))
          else persistUpdate now i updateData store)"

section \<open>Sample data\<close>

text \<open>
  Room 101 with one reservation for the dates 10 to 20 (guest 7, id 1), in the status
  given, and a request body for the same room.
\<close>

definition sample :: "string \<Rightarrow> Reservation" where
  "sample st =
     \<lparr> oid = 1, guestId = 7, roomId = 101, checkInDate = 10, checkOutDate = 20,
       numberOfGuests = 2, status = st, totalAmount = 300, depositAmount = None,
       specialRequests = None, source = Some ''online'', assignedRoomId = None,
       createdAt = 1, updatedAt = 1 \<rparr>"

definition request :: "Date \<Rightarrow> Date \<Rightarrow> string option \<Rightarrow> (string \<times> val) list" where
  "request cin cout st =
     [(''guestId'', VObjectId 8), (''roomId'', VObjectId 101), (''checkInDate'', VDate cin),
      (''checkOutDate'', VDate cout), (''numberOfGuests'', VNumber 1),
      (''totalAmount'', VNumber 250), (''source'', VString ''phone''),
      (''status'', optString st)]"

text \<open>The document such a request is stored as, under the id and at the time given.\<close>

definition booked :: "ObjectId \<Rightarrow> Date \<Rightarrow> Date \<Rightarrow> string \<Rightarrow> Date \<Rightarrow> Reservation" where
  "booked i cin cout st now =
     \<lparr> oid = i, guestId = 8, roomId = 101, checkInDate = cin, checkOutDate = cout,
       numberOfGuests = 1, status = st, totalAmount = 250, depositAmount = None,
       specialRequests = None, source = Some ''phone'', assignedRoomId = None,
       createdAt = now, updatedAt = now \<rparr>"

text \<open>
  A second reservation of room 101, pending, for the dates 12 to 18 inside the first
  one's, and a confirmed one for the dates 30 to 40.
\<close>

definition pendingInside :: Reservation where
  "pendingInside =
     (sample ''pending'')\<lparr>oid := 2, guestId := 8, checkInDate := 12, checkOutDate := 18\<rparr>"

definition confirmedLater :: Reservation where
  "confirmedLater =
     (sample ''confirmed'')\<lparr>oid := 3, guestId := 9, checkInDate := 30, checkOutDate := 40\<rparr>"

text \<open>
  An optional date of a body as a value, and the value the handler merges from a patch
  and the stored document (\<^verbatim>\<open>updateData.checkInDate || currentReservation.checkInDate\<close>).
\<close>

definition optDate :: "Date option \<Rightarrow> val" where
  "optDate d = (case d of None \<Rightarrow> VUndefined | Some t \<Rightarrow> VDate t)"

definition merged :: "Date option \<Rightarrow> Date \<Rightarrow> Date" where
  "merged patch current = (case patch of None \<Rightarrow> current | Some t \<Rightarrow> t)"

section \<open>Auxiliary facts\<close>

lemma find_Some_member: "find P xs = Some x \<Longrightarrow> P x \<and> x \<in> set xs"
  by (induction xs) (auto split: if_splits)

lemma find_unique:
  "r \<in> set xs \<Longrightarrow> P r \<Longrightarrow> (\<forall>x\<in>set xs. P x \<longrightarrow> x = r) \<Longrightarrow> find P xs = Some r"
proof (induction xs)
  case Nil
  then show ?case by simp
next
  case (Cons a xs)
  show ?case
  proof (cases "P a")
    case True
    with Cons.prems(3) have "a = r" by simp
    with True show ?thesis by simp
  next
    case False
    with Cons.prems have "r \<in> set xs" by auto
    moreover from Cons.prems(3) have "\<forall>x\<in>set xs. P x \<longrightarrow> x = r" by simp
    ultimately have "find P xs = Some r" using Cons.IH Cons.prems(2) by blast
    with False show ?thesis by simp
  qed
qed


lemma update_confirm:
  "findById i store = Some r \<Longrightarrow>
   findByIdAndUpdate now i
     [(''status'', VString ''confirmed''), (''confirmedAt'', VDate now), (''updatedAt'', VDate now)]
     store
   = Inr (Some (r\<lparr>status := ''confirmed'', updatedAt := now\<rparr>),
          replaceById i (r\<lparr>status := ''confirmed'', updatedAt := now\<rparr>) store)"
  by (simp add: findByIdAndUpdate_def castUpdate_def schemaPaths_def
      ReservationStatus_values_def applyAll_def List.map_filter_simps)

lemma update_cancel:
  "findById i store = Some r \<Longrightarrow>
   findByIdAndUpdate now i
     [(''status'', VString ''cancelled''), (''cancellationReason'', optString reason),
      (''cancelledAt'', VDate now), (''updatedAt'', VDate now)]
     store
   = Inr (Some (r\<lparr>status := ''cancelled'', updatedAt := now\<rparr>),
          replaceById i (r\<lparr>status := ''cancelled'', updatedAt := now\<rparr>) store)"
  by (simp add: findByIdAndUpdate_def castUpdate_def schemaPaths_def
      ReservationStatus_values_def applyAll_def List.map_filter_simps)

lemma update_delete:
  "findById i store = Some r \<Longrightarrow>
   findByIdAndUpdate now i
     [(''isActive'', VBool False), (''deletionReason'', optString deletionReason),
      (''notes'', optString notes), (''deletedAt'', VDate now), (''updatedAt'', VDate now)]
     store
   = Inr (Some (r\<lparr>updatedAt := now\<rparr>), replaceById i (r\<lparr>updatedAt := now\<rparr>) store)"
  by (simp add: findByIdAndUpdate_def castUpdate_def schemaPaths_def
      applyAll_def List.map_filter_simps)

lemma persistUpdate_not_conflict:
  "fst (persistUpdate now i updateData store) \<noteq> Failure ''Room is not available for the selected dates'' 409"
  by (simp add: persistUpdate_def split: sum.splits option.splits prod.splits)







lemma castString_Some: "(castString v = Some s) = (v = VString s)"
  by (cases v) auto

lemma newDate_Some: "(newDate v = Some t) = (v = VDate t)"
  by (cases v) auto









lemma create_conflict_iff:
  assumes "field body ''roomId'' = VObjectId room"
    and "field body ''checkInDate'' = VDate cin"
    and "field body ''checkOutDate'' = VDate cout"
  shows "(fst (createReservation now body store)
            = Failure ''Room is not available for the selected dates'' 409)
         = (\<exists>r\<in>set store. availabilityFilter room cin cout r)"
proof (cases "find (availabilityFilter room cin cout) store")
  case None
  then have "fst (createReservation now body store)
      \<noteq> Failure ''Room is not available for the selected dates'' 409"
    using assms by (simp add: createReservation_def readPath_def split: sum.splits prod.splits)
  moreover from None have "\<not> (\<exists>r\<in>set store. availabilityFilter room cin cout r)"
    using find_None_iff [of "availabilityFilter room cin cout" store] by blast
  ultimately show ?thesis by blast
next
  case (Some c)
  then have "fst (createReservation now body store)
      = Failure ''Room is not available for the selected dates'' 409"
    using assms by (simp add: createReservation_def readPath_def)
  moreover have "\<exists>r\<in>set store. availabilityFilter room cin cout r"
    using find_Some_member [OF Some] by blast
  ultimately show ?thesis by blast
qed

lemma request_stored:
  "newReservation now generated (request cin cout st)
   = Some (booked generated cin cout
             (case st of None \<Rightarrow> ''pending'' | Some s \<Rightarrow> s) now)"
  by (cases st) (simp_all add: newReservation_def readPath_def field_def request_def booked_def)

lemma request_errors:
  "now < cin \<Longrightarrow> cin < cout \<Longrightarrow> st \<in> {None, Some ''pending'', Some ''confirmed''} \<Longrightarrow>
   documentErrors now (request cin cout st) = []"
  by (auto simp add: documentErrors_def readPath_def field_def request_def
      ReservationStatus_values_def ReservationSource_values_def)

text \<open>
  What the strict schema keeps of the soft delete's update, and what the availability
  filter and the guards of cancel and delete do with each stored status.
\<close>

lemma soft_delete_update_cast:
  "castUpdate [(''isActive'', VBool False), (''deletionReason'', optString deletionReason),
               (''notes'', optString notes), (''deletedAt'', VDate now), (''updatedAt'', VDate now)]
   = [(''updatedAt'', VDate now)]"
  by (simp add: castUpdate_def schemaPaths_def)

lemma filter_ignores_other_statuses:
  "status r \<in> set (map ReservationStatus_value [PENDING, CHECKED_IN, CHECKED_OUT, CANCELLED, NO_SHOW])
   \<Longrightarrow> \<not> availabilityFilter room cin cout r"
  by (auto simp: availabilityFilter_def)

lemma confirmed_overlap_blocks:
  assumes "r \<in> set store" and "status r = ReservationStatus_value CONFIRMED"
    and "field body ''roomId'' = VObjectId (roomId r)"
    and "field body ''checkInDate'' = VDate cin" and "field body ''checkOutDate'' = VDate cout"
    and "checkInDate r \<le> cout" and "cin \<le> checkOutDate r"
  shows "fst (createReservation now body store)
           = Failure ''Room is not available for the selected dates'' 409"
proof -
  have "availabilityFilter (roomId r) cin cout r"
    using assms by (simp add: availabilityFilter_def)
  with assms(1) show ?thesis
    using create_conflict_iff [OF assms(3) assms(4) assms(5), of now store] by blast
qed

lemma delete_guard:
  "findById i store = Some r \<Longrightarrow> status r \<notin> {''pending'', ''cancelled''} \<Longrightarrow>
   deleteReservation now (Some i) deletionReason notes store
   = (Failure ''Only cancelled or pending reservations can be deleted'' 400, store)"
  by (auto simp: deleteReservation_def)

lemma cancel_already_cancelled:
  "findById i store = Some r \<Longrightarrow> status r = ReservationStatus_value CANCELLED \<Longrightarrow>
   cancelReservation now (Some i) reason store
   = (Failure ''Reservation is already cancelled or completed'' 400, store)"
  by (simp add: cancelReservation_def)

lemma cancel_other_statuses:
  "findById i store = Some r \<Longrightarrow>
   status r \<in> set (map ReservationStatus_value [PENDING, CONFIRMED, CHECKED_IN, NO_SHOW]) \<Longrightarrow>
   cancelReservation now (Some i) reason store
   = (Success (Some (r\<lparr>status := ''cancelled'', updatedAt := now\<rparr>))
        ''Reservation cancelled successfully'' 200,
      replaceById i (r\<lparr>status := ''cancelled'', updatedAt := now\<rparr>) store)"
  by (auto simp: cancelReservation_def update_cancel)

lemma updateStatus_accepted_values:
  "findById i store = Some r \<Longrightarrow> s \<in> {''pending'', ''confirmed'', ''cancelled''} \<Longrightarrow>
   updateReservationStatus now (Some i) (VString s) store
   = (Success (r\<lparr>status := s, updatedAt := now\<rparr>)
        ''Reservation status updated successfully'' 200,
      replaceById i (r\<lparr>status := s, updatedAt := now\<rparr>) store)"
  by (auto simp: updateReservationStatus_def validStatuses_def findByIdAndUpdate_def
      castUpdate_def schemaPaths_def ReservationStatus_values_def applyAll_def
      List.map_filter_simps)

section \<open>Availability check\<close>

text \<open>
  C1 (amended). For a room whose only stored reservation \<open>r\<close> is confirmed, with dates
  \<open>s = checkInDate r\<close> and \<open>e = checkOutDate r\<close>, and a request for the room and the
  dates \<open>s'\<close> to \<open>e'\<close> (any body with these three values): createReservation answers
  409 exactly when \<open>s \<le> e'\<close> and \<open>e \<ge> s'\<close>, and checkAvailability answers
  \<open>available = false\<close> with \<open>r\<close>'s id in exactly that case. The comparison is inclusive
  at both ends.
\<close>

theorem availability_conflict_inclusive:
  assumes r: "r \<in> set store"
    and st: "status r = ''confirmed''"
    and only: "\<forall>r'\<in>set store. r' \<noteq> r \<longrightarrow> roomId r' \<noteq> roomId r"
    and room: "field body ''roomId'' = VObjectId (roomId r)"
    and cin: "field body ''checkInDate'' = VDate s'"
    and cout: "field body ''checkOutDate'' = VDate e'"
  shows "((fst (createReservation now body store)
             = Failure ''Room is not available for the selected dates'' 409)
          = (checkInDate r \<le> e' \<and> checkOutDate r \<ge> s'))
       \<and> checkAvailability (Given (roomId r)) (Given s') (Given e') store
          = Success \<lparr> available = \<not> (checkInDate r \<le> e' \<and> checkOutDate r \<ge> s'),
                      conflictingReservation =
                        (if checkInDate r \<le> e' \<and> checkOutDate r \<ge> s'
                         then Some (oid r) else None) \<rparr>
              ''Availability checked successfully'' 200"
proof -
  let ?P = "availabilityFilter (roomId r) s' e'"
  let ?ov = "checkInDate r \<le> e' \<and> checkOutDate r \<ge> s'"
  have Pr: "?P r = ?ov" using st by (simp add: availabilityFilter_def)
  have others: "\<forall>x\<in>set store. ?P x \<longrightarrow> x = r"
    using only by (auto simp: availabilityFilter_def)
  have ex: "(\<exists>x\<in>set store. ?P x) = ?ov" using r Pr others by blast
  have create: "(fst (createReservation now body store)
             = Failure ''Room is not available for the selected dates'' 409) = ?ov"
    using ex create_conflict_iff [OF room cin cout, of now store] by simp
  have avail: "checkAvailability (Given (roomId r)) (Given s') (Given e') store
          = Success \<lparr> available = \<not> ?ov,
                      conflictingReservation = (if ?ov then Some (oid r) else None) \<rparr>
              ''Availability checked successfully'' 200"
  proof (cases ?ov)
    case True
    then have "find ?P store = Some r" using r Pr others by (intro find_unique) auto
    with True show ?thesis by simp
  next
    case False
    with ex have "\<not> (\<exists>x\<in>set store. ?P x)" by blast
    then have "find ?P store = None"
      using find_None_iff [of ?P store] by blast
    with False show ?thesis by simp
  qed
  from create avail show ?thesis by blast
qed

text \<open>
  The request that starts on the stored reservation's check-out date (20): both handlers
  report the conflict.
\<close>

theorem availability_conflict_inclusive_witness:
  "sample ''confirmed'' \<in> set [sample ''confirmed'']
   \<and> status (sample ''confirmed'') = ''confirmed''
   \<and> field (request 20 30 None) ''roomId'' = VObjectId (roomId (sample ''confirmed''))
   \<and> field (request 20 30 None) ''checkInDate'' = VDate (checkOutDate (sample ''confirmed''))
   \<and> field (request 20 30 None) ''checkOutDate'' = VDate 30
   \<and> fst (createReservation 5 (request 20 30 None) [sample ''confirmed''])
       = Failure ''Room is not available for the selected dates'' 409
   \<and> checkAvailability (Given 101) (Given 20) (Given 30) [sample ''confirmed'']
       = Success \<lparr> available = False, conflictingReservation = Some 1 \<rparr>
           ''Availability checked successfully'' 200"
  using availability_conflict_inclusive
    [of "sample ''confirmed''" "[sample ''confirmed'']" "request 20 30 None" 20 30 5]
  by (simp add: sample_def request_def field_def)

text \<open>
  C1 as stated fails: the stored reservation is confirmed for 10 to 20, the request is
  for 20 to 30, so \<open>e > s'\<close> is false, yet the create is refused with 409 and
  checkAvailability reports the room unavailable.
\<close>

theorem adjacent_request_reports_conflict:
  "field (request 20 30 None) ''checkInDate'' = VDate 20
   \<and> field (request 20 30 None) ''checkOutDate'' = VDate 30
   \<and> \<not> (checkInDate (sample ''confirmed'') < 30 \<and> checkOutDate (sample ''confirmed'') > 20)
   \<and> createReservation 5 (request 20 30 None) [sample ''confirmed'']
       = (Failure ''Room is not available for the selected dates'' 409, [sample ''confirmed''])
   \<and> checkAvailability (Given 101) (Given 20) (Given 30) [sample ''confirmed'']
       = Success \<lparr> available = False, conflictingReservation = Some 1 \<rparr>
           ''Availability checked successfully'' 200"
  by (simp add: createReservation_def readPath_def field_def availabilityFilter_def
      sample_def request_def)

text \<open>
  C2. The filter asks for the status \<^verbatim>\<open>'checked-in'\<close>, the enum stores
  \<^verbatim>\<open>'checked_in'\<close>: a checked-in reservation for 10 to 20 does not block a request
  for 12 to 18 of the same room. The create succeeds and checkAvailability reports the
  room available.
\<close>

theorem checked_in_reservation_does_not_block:
  "createReservation 5 (request 12 18 None) [sample (ReservationStatus_value CHECKED_IN)]
     = (Success (booked 2 12 18 ''pending'' 5) ''Reservation created successfully'' 201,
        [sample (ReservationStatus_value CHECKED_IN), booked 2 12 18 ''pending'' 5])
   \<and> checkAvailability (Given 101) (Given 12) (Given 18)
         [sample (ReservationStatus_value CHECKED_IN)]
     = Success \<lparr> available = True, conflictingReservation = None \<rparr>
         ''Availability checked successfully'' 200"
proof -
  have q: "readPath castObjectId (request 12 18 None) ''roomId'' = Given 101"
    "newDate (field (request 12 18 None) ''checkInDate'') = Some 12"
    "newDate (field (request 12 18 None) ''checkOutDate'') = Some 18"
    by (simp_all add: readPath_def field_def request_def)
  have f: "\<not> availabilityFilter 101 12 18 (sample ''checked_in'')"
    by (simp add: availabilityFilter_def sample_def)
  have g: "newObjectId [sample ''checked_in''] = 2"
    by (simp add: newObjectId_def sample_def)
  have s: "save 5 (request 12 18 None) [sample ''checked_in'']
      = Inr (booked 2 12 18 ''pending'' 5,
             [sample ''checked_in'', booked 2 12 18 ''pending'' 5])"
    by (simp add: save_def g request_stored request_errors)
      (simp add: booked_def sample_def newObjectId_def)
  show ?thesis by (simp add: createReservation_def q f s)
qed

section \<open>Confirm\<close>

text \<open>
  C3 (amended). For every reservation in status pending, confirmReservation runs no
  availability check: whatever else the collection holds, it answers 200 and the stored
  reservation gets the status confirmed (and the update time \<open>now\<close>).
\<close>

theorem confirm_pending_unchecked:
  "findById i store = Some r \<Longrightarrow> status r = ''pending'' \<Longrightarrow>
   confirmReservation now (Some i) store
   = (Success (Some (r\<lparr>status := ''confirmed'', updatedAt := now\<rparr>))
        ''Reservation confirmed successfully'' 200,
      replaceById i (r\<lparr>status := ''confirmed'', updatedAt := now\<rparr>) store)"
  by (simp add: confirmReservation_def update_confirm)

theorem confirm_pending_unchecked_witness:
  "findById 2 [sample ''confirmed'', pendingInside] = Some pendingInside
   \<and> status pendingInside = ''pending''
   \<and> confirmReservation 5 (Some 2) [sample ''confirmed'', pendingInside]
       = (Success (Some (pendingInside\<lparr>status := ''confirmed'', updatedAt := 5\<rparr>))
            ''Reservation confirmed successfully'' 200,
          [sample ''confirmed'', pendingInside\<lparr>status := ''confirmed'', updatedAt := 5\<rparr>])"
  using confirm_pending_unchecked [of 2 "[sample ''confirmed'', pendingInside]" pendingInside 5]
  by (simp add: findById_def sample_def pendingInside_def)

text \<open>
  C3 as stated fails: room 101 has a confirmed reservation for 10 to 20 and a pending one
  for 12 to 18. The availability filter matches the confirmed one for the pending one's
  room and dates, yet confirming the pending one is not refused with 409: it succeeds.
\<close>

theorem confirm_ignores_overlap:
  "availabilityFilter (roomId pendingInside) (checkInDate pendingInside)
       (checkOutDate pendingInside) (sample ''confirmed'')
   \<and> checkInDate (sample ''confirmed'') < checkOutDate pendingInside
   \<and> checkOutDate (sample ''confirmed'') > checkInDate pendingInside
   \<and> fst (confirmReservation 5 (Some 2) [sample ''confirmed'', pendingInside])
       = Success (Some (pendingInside\<lparr>status := ''confirmed'', updatedAt := 5\<rparr>))
           ''Reservation confirmed successfully'' 200"
  by (simp add: confirmReservation_def update_confirm findById_def availabilityFilter_def
      sample_def pendingInside_def)

text \<open>
  C7. For every stored reservation whose status is not pending, confirmReservation
  answers 400 (only pending reservations can be confirmed) and the collection is
  unchanged.
\<close>

theorem confirm_non_pending_rejected:
  "findById i store = Some r \<Longrightarrow> status r \<noteq> ''pending'' \<Longrightarrow>
   confirmReservation now (Some i) store
   = (Failure ''Only pending reservations can be confirmed'' 400, store)"
  by (simp add: confirmReservation_def)

theorem confirm_non_pending_rejected_witness:
  "findById 1 [sample ''confirmed''] = Some (sample ''confirmed'')
   \<and> status (sample ''confirmed'') \<noteq> ''pending''
   \<and> confirmReservation 5 (Some 1) [sample ''confirmed'']
       = (Failure ''Only pending reservations can be confirmed'' 400, [sample ''confirmed''])"
  using confirm_non_pending_rejected [of 1 "[sample ''confirmed'']" "sample ''confirmed''" 5]
  by (simp add: findById_def sample_def)

section \<open>Status update, cancel, delete\<close>

text \<open>
  C4. updateReservationStatus compares the new status with the hyphenated literals of
  \<open>validStatuses\<close>. The enum's values \<^verbatim>\<open>checked_in\<close>, \<^verbatim>\<open>checked_out\<close> and \<^verbatim>\<open>no_show\<close>
  are answered with 400, invalid status value, for every id and collection; the
  hyphenated \<^verbatim>\<open>checked-in\<close> passes that test and is then refused by the schema's enum
  validator. The collection is unchanged in each case.
\<close>

theorem updateStatus_rejects_enum_values:
  "updateReservationStatus now (Some i) (VString (ReservationStatus_value CHECKED_IN)) store
     = (Failure ''Invalid status value'' 400, store)
   \<and> updateReservationStatus now (Some i) (VString (ReservationStatus_value CHECKED_OUT)) store
     = (Failure ''Invalid status value'' 400, store)
   \<and> updateReservationStatus now (Some i) (VString (ReservationStatus_value NO_SHOW)) store
     = (Failure ''Invalid status value'' 400, store)
   \<and> updateReservationStatus now (Some i) (VString ''checked-in'') store
     = (Caught (ValidationError [(''status'', ''enum'')]), store)"
  by (simp add: updateReservationStatus_def validStatuses_def findByIdAndUpdate_def
      castUpdate_def schemaPaths_def ReservationStatus_values_def)

text \<open>
  C5. cancelReservation compares the status with \<^verbatim>\<open>'checked-out'\<close>, the enum stores
  \<^verbatim>\<open>'checked_out'\<close>: cancelling a checked-out reservation is not refused. It answers 200
  and the stored reservation becomes cancelled; of the update only the status and the
  update time are paths of the schema, so neither the reason nor \<^verbatim>\<open>cancelledAt\<close> is
  stored.
\<close>

theorem cancel_checked_out:
  "findById i store = Some r \<Longrightarrow> status r = ReservationStatus_value CHECKED_OUT \<Longrightarrow>
   cancelReservation now (Some i) reason store
   = (Success (Some (r\<lparr>status := ''cancelled'', updatedAt := now\<rparr>))
        ''Reservation cancelled successfully'' 200,
      replaceById i (r\<lparr>status := ''cancelled'', updatedAt := now\<rparr>) store)"
  by (simp add: cancelReservation_def update_cancel)

theorem cancel_checked_out_witness:
  "findById 1 [sample ''checked_out''] = Some (sample ''checked_out'')
   \<and> status (sample ''checked_out'') = ReservationStatus_value CHECKED_OUT
   \<and> cancelReservation 5 (Some 1) (Some ''guest request'') [sample ''checked_out'']
       = (Success (Some (sample ''cancelled''\<lparr>updatedAt := 5\<rparr>))
            ''Reservation cancelled successfully'' 200,
          [sample ''cancelled''\<lparr>updatedAt := 5\<rparr>])"
  using cancel_checked_out
    [of 1 "[sample ''checked_out'']" "sample ''checked_out''" 5 "Some ''guest request''"]
  by (simp add: findById_def sample_def)

text \<open>
  C6. deleteReservation on a pending or cancelled reservation answers 200, but
  \<^verbatim>\<open>isActive\<close>, \<^verbatim>\<open>deletionReason\<close>, \<^verbatim>\<open>notes\<close> and \<^verbatim>\<open>deletedAt\<close> are no paths of the
  schema: the stored reservation changes in its update time only, whatever reason is
  given.
\<close>

theorem delete_persists_nothing:
  "findById i store = Some r \<Longrightarrow> status r \<in> {''pending'', ''cancelled''} \<Longrightarrow>
   deleteReservation now (Some i) deletionReason notes store
   = (Success (Some (r\<lparr>updatedAt := now\<rparr>)) ''Reservation deleted successfully'' 200,
      replaceById i (r\<lparr>updatedAt := now\<rparr>) store)"
  by (auto simp add: deleteReservation_def update_delete)

theorem delete_persists_nothing_witness:
  "findById 1 [sample ''pending''] = Some (sample ''pending'')
   \<and> status (sample ''pending'') \<in> {''pending'', ''cancelled''}
   \<and> deleteReservation 5 (Some 1) (Some ''duplicate booking'') None [sample ''pending'']
       = (Success (Some (sample ''pending''\<lparr>updatedAt := 5\<rparr>))
            ''Reservation deleted successfully'' 200,
          [sample ''pending''\<lparr>updatedAt := 5\<rparr>])"
  using delete_persists_nothing
    [of 1 "[sample ''pending'']" "sample ''pending''" 5 "Some ''duplicate booking''" None]
  by (simp add: findById_def sample_def)

section \<open>Update of dates\<close>

text \<open>
  C8 (amended). For a stored reservation \<open>cur\<close> with id \<open>i\<close> and a patch that gives no
  room and the optional dates \<open>a\<close> (check-in) and \<open>b\<close> (check-out): updateReservation
  answers 409 exactly when the patch gives a date and a stored reservation with another
  id, of \<open>cur\<close>'s room and with a status of the filter, meets the filter's inclusive
  date test for the merged dates: its check-in not after the merged check-out and its
  check-out not before the merged check-in. The reservation itself never causes the
  conflict; another one that only touches the merged dates at an end does.
\<close>

theorem update_conflict_only_with_another:
  assumes cur: "findById i store = Some cur"
    and room: "field updateData ''roomId'' = VUndefined"
    and cin: "field updateData ''checkInDate'' = optDate a"
    and cout: "field updateData ''checkOutDate'' = optDate b"
  shows "(fst (updateReservation now (Some i) updateData store)
            = Failure ''Room is not available for the selected dates'' 409)
         = ((a \<noteq> None \<or> b \<noteq> None) \<and>
            (\<exists>r\<in>set store. oid r \<noteq> i \<and> roomId r = roomId cur
               \<and> status r \<in> set [''confirmed'', ''checked-in'']
               \<and> checkInDate r \<le> merged b (checkOutDate cur)
               \<and> checkOutDate r \<ge> merged a (checkInDate cur)))"
proof (cases "a = None \<and> b = None")
  case True
  then show ?thesis
    using room cin cout
    by (simp add: updateReservation_def optDate_def persistUpdate_not_conflict)
next
  case False
  then have t: "truthy (optDate a) \<or> truthy (optDate b)"
    by (auto simp: optDate_def)
  have ma: "newDate (orElse (optDate a) (VDate (checkInDate cur))) = Some (merged a (checkInDate cur))"
    by (cases a) (simp_all add: optDate_def orElse_def merged_def)
  have mb: "newDate (orElse (optDate b) (VDate (checkOutDate cur))) = Some (merged b (checkOutDate cur))"
    by (cases b) (simp_all add: optDate_def orElse_def merged_def)
  let ?P = "\<lambda>r. oid r \<noteq> i \<and> availabilityFilter (roomId cur) (merged a (checkInDate cur)) (merged b (checkOutDate cur)) r"
  have step: "updateReservation now (Some i) updateData store =
      (case find ?P store of
         Some conflicting \<Rightarrow> (Failure ''Room is not available for the selected dates'' 409, store)
       | None \<Rightarrow> persistUpdate now i updateData store)"
    using t cur room cin cout ma mb
    by (simp add: updateReservation_def orElse_def)
  show ?thesis
  proof (cases "find ?P store")
    case None
    then have "\<not> (\<exists>r\<in>set store. ?P r)" by (simp add: find_None_iff)
    with None step False show ?thesis
      by (auto simp: persistUpdate_not_conflict availabilityFilter_def)
  next
    case (Some c)
    then have "\<exists>r\<in>set store. ?P r" using find_Some_member [of ?P store c] by blast
    with Some step False show ?thesis
      by (auto simp: availabilityFilter_def)
  qed
qed

text \<open>
  A confirmed reservation moved inside its own dates, with another room-101 reservation
  far away: no conflict.
\<close>

theorem update_conflict_only_with_another_witness:
  "findById 1 [sample ''confirmed'', confirmedLater] = Some (sample ''confirmed'')
   \<and> field [(''checkInDate'', VDate 12), (''checkOutDate'', VDate 18)] ''roomId'' = VUndefined
   \<and> field [(''checkInDate'', VDate 12), (''checkOutDate'', VDate 18)] ''checkInDate''
       = optDate (Some 12)
   \<and> field [(''checkInDate'', VDate 12), (''checkOutDate'', VDate 18)] ''checkOutDate''
       = optDate (Some 18)
   \<and> fst (updateReservation 5 (Some 1) [(''checkInDate'', VDate 12), (''checkOutDate'', VDate 18)]
            [sample ''confirmed'', confirmedLater])
       \<noteq> Failure ''Room is not available for the selected dates'' 409"
  using update_conflict_only_with_another
    [of 1 "[sample ''confirmed'', confirmedLater]" "sample ''confirmed''"
        "[(''checkInDate'', VDate 12), (''checkOutDate'', VDate 18)]" "Some 12" "Some 18" 5]
  by (simp add: findById_def field_def optDate_def merged_def sample_def confirmedLater_def)

text \<open>
  C8 as stated fails: the confirmed reservation for 10 to 20 is extended to 10 to 30 while
  another confirmed reservation of the room holds 30 to 40. The two intervals do not
  overlap (the other one starts when the new one ends), yet the update is refused with
  409.
\<close>

theorem update_conflict_without_overlap:
  "findById 1 [sample ''confirmed'', confirmedLater] = Some (sample ''confirmed'')
   \<and> merged None (checkInDate (sample ''confirmed'')) = 10
   \<and> \<not> (checkInDate confirmedLater < 30 \<and> checkOutDate confirmedLater > 10)
   \<and> updateReservation 5 (Some 1) [(''checkOutDate'', VDate 30)]
         [sample ''confirmed'', confirmedLater]
       = (Failure ''Room is not available for the selected dates'' 409,
          [sample ''confirmed'', confirmedLater])"
  by (simp add: updateReservation_def findById_def field_def orElse_def merged_def
      availabilityFilter_def sample_def confirmedLater_def)

section \<open>Create\<close>






end
